theory Spec2Isabelle
  imports Main
begin

section \<open>Python values and exceptions\<close>

text \<open>
  The wiki client and the HTTP layer hand the program parsed JSON documents, and the
  program reads them with Python's subscripting, truth test and iteration. The model
  keeps these values untyped, as Python does: a title or a page identifier is whatever
  the upstream document holds at that key. A JSON number is an integer here (only its
  test against zero is used); an object is an association list whose first binding
  of a key is the value of that key.
\<close>

datatype json =
    JNull
  | JBool bool
  | JNum int
  | JStr string
  | JArr "json list"
  | JObj "(string \<times> json) list"

text \<open>
  The exceptions that Python itself raises in the modelled code carry their own
  constructor; \<open>HTTPError\<close> is what \<open>raise_for_status\<close> raises,
  \<open>RecursionError\<close> what the interpreter raises at its recursion limit and
  \<open>UnicodeEncodeError\<close> what a write to stdout raises; every failure that comes from
  a library or a remote service is an \<open>External\<close> value supplied by the
  environment. All of them are subclasses of \<open>Exception\<close>, which is what the
  handlers of the program catch.
\<close>

datatype exn =
    KeyError json
  | IndexError
  | TypeError
  | HTTPError nat
  | RecursionError
  | UnicodeEncodeError
  | External string

text \<open>\<open>not v\<close> is \<open>\<not> truthy v\<close>.\<close>

fun truthy :: "json \<Rightarrow> bool" where
  "truthy JNull = False"
| "truthy (JBool b) = b"
| "truthy (JNum n) = (n \<noteq> 0)"
| "truthy (JStr s) = (s \<noteq> [])"
| "truthy (JArr xs) = (xs \<noteq> [])"
| "truthy (JObj kvs) = (kvs \<noteq> [])"

text \<open>\<open>v[k]\<close> for a string key \<open>k\<close>: only a dict accepts it.\<close>

fun subscript :: "json \<Rightarrow> string \<Rightarrow> exn + json" where
  "subscript (JObj kvs) k =
     (case map_of kvs k of None \<Rightarrow> Inl (KeyError (JStr k)) | Some v \<Rightarrow> Inr v)"
| "subscript v k = Inl TypeError"

text \<open>\<open>v[0]\<close>. A decoded JSON object has string keys only, so \<open>0\<close> is never a key.\<close>

fun subscript0 :: "json \<Rightarrow> exn + json" where
  "subscript0 (JArr []) = Inl IndexError"
| "subscript0 (JArr (x # xs)) = Inr x"
| "subscript0 (JStr []) = Inl IndexError"
| "subscript0 (JStr (c # cs)) = Inr (JStr [c])"
| "subscript0 (JObj kvs) = Inl (KeyError (JNum 0))"
| "subscript0 v = Inl TypeError"

text \<open>\<open>for x in v\<close>: the elements of a list, the keys of a dict, the characters of a string.\<close>

fun py_iter :: "json \<Rightarrow> exn + json list" where
  "py_iter (JArr xs) = Inr xs"
| "py_iter (JObj kvs) = Inr (map (\<lambda>kv. JStr (fst kv)) kvs)"
| "py_iter (JStr s) = Inr (map (\<lambda>c. JStr [c]) s)"
| "py_iter v = Inl TypeError"

section \<open>The environment: configuration, libraries, upstream services, clock\<close>

text \<open>
  A call that leaves the process for the wiki service or for blob storage is recorded,
  in the order the program makes it. Building a client object (\<open>Confluence(...)\<close>,
  \<open>from_connection_string\<close>, \<open>get_container_client\<close>, \<open>get_blob_client\<close>) sends
  nothing and is not recorded.
\<close>

datatype call =
    CreateContainer string
  | UploadBlob string string json
  | SetBlobMetadata string string "(string \<times> json) list"
  | HttpGet string "(string \<times> string) list"
  | GetAllPagesFromSpace json nat
  | GetPageAncestors json
  | Cql string string

record http_response =
  http_status :: nat
  http_json :: "exn + json"

text \<open>
  Everything the program does not compute itself: the process environment, the
  outcome of each library constructor and of each remote operation as a function of
  its arguments, the local calendar day at each read of the clock (as a day number),
  Python's \<open>str()\<close> on values that are not strings and on exceptions, the
  characters that the encoding of stdout accepts, and the number of visits of
  \<open>process_page_full\<close> that can nest below the first one before the interpreter's
  recursion limit is reached. The answer of a remote operation depends on its arguments
  only: the upstream services do not change while one request is served.
\<close>

record env =
  os_getenv :: "string \<Rightarrow> string option"
  Confluence_new :: "string option \<Rightarrow> string option \<Rightarrow> string option \<Rightarrow> exn option"
  from_connection_string :: "string option \<Rightarrow> exn option"
  get_container_client :: "string \<Rightarrow> exn option"
  create_container :: "string \<Rightarrow> exn option"
  get_blob_client :: "string \<Rightarrow> string \<Rightarrow> exn option"
  upload_blob :: "string \<Rightarrow> string \<Rightarrow> json \<Rightarrow> exn option"
  set_blob_metadata :: "string \<Rightarrow> string \<Rightarrow> (string \<times> json) list \<Rightarrow> exn option"
  requests_get :: "string \<Rightarrow> string option \<times> string option \<Rightarrow> (string \<times> string) list
                     \<Rightarrow> exn + http_response"
  get_all_pages_from_space :: "json \<Rightarrow> nat \<Rightarrow> exn + json"
  get_page_ancestors :: "json \<Rightarrow> exn + json"
  cql :: "string \<Rightarrow> string \<Rightarrow> exn + json"
  datetime_now :: "nat \<Rightarrow> int"
  strftime_ymd :: "int \<Rightarrow> string"
  py_str :: "json \<Rightarrow> string"
  exn_str :: "exn \<Rightarrow> string"
  stdout_encodes :: "char \<Rightarrow> bool"
  recursion_room :: nat

text \<open>A formatted field \<open>{v}\<close> of an f-string.\<close>

definition fmt :: "env \<Rightarrow> json \<Rightarrow> string" where
  "fmt e v = (case v of JStr s \<Rightarrow> s | _ \<Rightarrow> py_str e v)"

definition fmt_opt :: "string option \<Rightarrow> string" where
  "fmt_opt v = (case v of None \<Rightarrow> ''None'' | Some s \<Rightarrow> s)"

section \<open>Running a method: outcome and calls made\<close>

text \<open>
  A method run yields its outcome, \<open>Inl\<close> an exception that escapes it or \<open>Inr\<close> its
  return value, and the upstream calls it made.
\<close>

type_synonym 'a run = "(exn + 'a) \<times> call list"

definition ret :: "exn + 'a \<Rightarrow> 'a run" where
  "ret r = (r, [])"

definition remote :: "call \<Rightarrow> exn + 'a \<Rightarrow> 'a run" where
  "remote c r = (r, [c])"

definition and_then :: "'a run \<Rightarrow> ('a \<Rightarrow> 'b run) \<Rightarrow> 'b run" where
  "and_then m f =
     (case m of
        (Inl ex, cs) \<Rightarrow> (Inl ex, cs)
      | (Inr x, cs) \<Rightarrow> (case f x of (r, cs') \<Rightarrow> (r, cs @ cs')))"

text \<open>\<open>try: ... except Exception as e: print(...)\<close> around a whole method body.\<close>

definition try_except_print :: "'a run \<Rightarrow> unit run" where
  "try_except_print m = (case m of (r, cs) \<Rightarrow> (Inr (), cs))"

definition outcome_of :: "exn option \<Rightarrow> exn + unit" where
  "outcome_of r = (case r of None \<Rightarrow> Inr () | Some ex \<Rightarrow> Inl ex)"

text \<open>
  \<open>print\<close> of a line that holds page data: the write raises when stdout cannot encode
  a character of the data. Stdout is open, and the fixed words of a line and the text
  of an exception are encodable: a \<open>print\<close> of nothing else (as in
  \<open>try_except_print\<close>) does not raise.
\<close>

definition print_line :: "env \<Rightarrow> string \<Rightarrow> exn + unit" where
  "print_line e data = (if list_all (stdout_encodes e) data then Inr () else Inl UnicodeEncodeError)"

section \<open>The sync session (\<open>confluence_sync.py\<close>)\<close>

text \<open>
  The fields of \<open>self\<close> that hold data. The client handles (\<open>confluence\<close>,
  \<open>auth\<close>, \<open>blob_service_client\<close>, \<open>container_client\<close>) are the environment's
  operations, applied to the fields they were built from.
\<close>

record session =
  space :: json
  base_url :: "string option"
  confluence_base_url :: "string option"
  username :: "string option"
  token :: "string option"
  azure_connection_string :: "string option"
  container_name :: string
  root_page_id :: json

text \<open>\<open>_create_container\<close>: any failure is printed and ignored.\<close>

definition create_container_step :: "env \<Rightarrow> string \<Rightarrow> unit run" where
  "create_container_step e container =
     try_except_print (remote (CreateContainer container) (outcome_of (create_container e container)))"

text \<open>
  \<open>upload_to_azure_blob\<close>: the three storage operations and the line
  \<open>Uploaded <blob_name> ...\<close> stand inside one \<open>try\<close>; the first that raises
  ends the attempt, and the handler prints \<open>Failed to upload <blob_name>: <e>\<close>.
  Nothing guards the handler's own \<open>print\<close>.
\<close>

definition upload_to_azure_blob ::
  "env \<Rightarrow> session \<Rightarrow> json \<Rightarrow> string \<Rightarrow> (string \<times> json) list \<Rightarrow> unit run" where
  "upload_to_azure_blob e self content blob_name metadata =
     (case and_then (ret (outcome_of (get_blob_client e (container_name self) blob_name))) (\<lambda>_.
           and_then (remote (UploadBlob (container_name self) blob_name content)
                       (outcome_of (upload_blob e (container_name self) blob_name content))) (\<lambda>_.
           and_then (remote (SetBlobMetadata (container_name self) blob_name metadata)
                       (outcome_of (set_blob_metadata e (container_name self) blob_name metadata))) (\<lambda>_.
           ret (print_line e blob_name)))) of
        (Inr u, cs) \<Rightarrow> (Inr (), cs)
      | (Inl ex, cs) \<Rightarrow> (print_line e blob_name, cs))"

text \<open>\<open>response.raise_for_status()\<close>: client and server error codes raise.\<close>

definition raise_for_status :: "http_response \<Rightarrow> exn + unit" where
  "raise_for_status response =
     (if 400 \<le> http_status response \<and> http_status response < 600
      then Inl (HTTPError (http_status response)) else Inr ())"

definition get_child_pages :: "env \<Rightarrow> session \<Rightarrow> json \<Rightarrow> json run" where
  "get_child_pages e self parent_id =
     (let url = fmt_opt (confluence_base_url self) @ ''/'' @ fmt e parent_id @ ''/child/page'' in
      and_then (remote (HttpGet url []) (requests_get e url (username self, token self) [])) (\<lambda>response.
      and_then (ret (raise_for_status response)) (\<lambda>_.
      and_then (ret (http_json response)) (\<lambda>data.
      ret (subscript data ''results'')))))"

text \<open>The query parameters of a page request (the number \<open>1\<close> as it is sent).\<close>

definition page_params :: "(string \<times> string) list" where
  "page_params =
     [(''expand'', ''body.storage,version''),
      (''orderby'', ''history.lastModified desc''),
      (''limit'', ''1'')]"

definition get_page_content :: "env \<Rightarrow> session \<Rightarrow> json \<Rightarrow> (json \<times> json \<times> json) run" where
  "get_page_content e self page_id =
     (let url = fmt_opt (confluence_base_url self) @ ''/'' @ fmt e page_id;
          params = page_params in
      and_then (remote (HttpGet url params) (requests_get e url (username self, token self) params)) (\<lambda>response.
      and_then (ret (raise_for_status response)) (\<lambda>_.
      and_then (ret (http_json response)) (\<lambda>data.
      and_then (ret (subscript data ''title'')) (\<lambda>title.
      and_then (ret (subscript data ''body'')) (\<lambda>body.
      and_then (ret (subscript body ''storage'')) (\<lambda>storage.
      and_then (ret (subscript storage ''value'')) (\<lambda>body_content.
      and_then (ret (subscript data ''version'')) (\<lambda>version.
      and_then (ret (subscript version ''when'')) (\<lambda>created_date.
      ret (Inr (title, body_content, created_date))))))))))))"

definition get_updated_page_content :: "env \<Rightarrow> session \<Rightarrow> json \<Rightarrow> (json \<times> json \<times> json) run" where
  "get_updated_page_content e self page_id =
     (let url = fmt_opt (confluence_base_url self) @ ''/'' @ fmt e page_id;
          params = [(''expand'', ''body.storage,version''),
                    (''orderby'', ''history.lastModified desc''),
                    (''limit'', ''1'')] in
      and_then (remote (HttpGet url params) (requests_get e url (username self, token self) params)) (\<lambda>response.
      and_then (ret (raise_for_status response)) (\<lambda>_.
      and_then (ret (http_json response)) (\<lambda>data.
      and_then (ret (subscript data ''title'')) (\<lambda>title.
      and_then (ret (subscript data ''body'')) (\<lambda>body.
      and_then (ret (subscript body ''storage'')) (\<lambda>storage.
      and_then (ret (subscript storage ''value'')) (\<lambda>body_content.
      and_then (ret (subscript data ''version'')) (\<lambda>version.
      and_then (ret (subscript version ''when'')) (\<lambda>created_date.
      ret (Inr (title, body_content, created_date))))))))))))"

text \<open>
  \<open>os.path.join(a, b)\<close> of two strings, as \<open>posixpath\<close> defines it (the functions
  run on Linux): an absolute \<open>b\<close> discards \<open>a\<close>; no separator is added after an empty
  \<open>a\<close> or one that ends in a slash. A component that is not a string raises.
\<close>

definition os_path_join :: "string \<Rightarrow> string \<Rightarrow> string" where
  "os_path_join a b =
     (if b \<noteq> [] \<and> hd b = CHR ''/'' then b
      else if a = [] then b
      else if last a = CHR ''/'' then a @ b
      else a @ ''/'' @ b)"

definition os_path_join_json :: "string \<Rightarrow> json \<Rightarrow> exn + string" where
  "os_path_join_json a v = (case v of JStr b \<Rightarrow> Inr (os_path_join a b) | _ \<Rightarrow> Inl TypeError)"

text \<open>\<open>s.replace("\\", "/")\<close>: every backslash of the string becomes a slash.\<close>

definition replace_backslash :: "string \<Rightarrow> string" where
  "replace_backslash s = map (\<lambda>c. if c = CHR 0x5C then CHR ''/'' else c) s"

definition get_root_page_id :: "env \<Rightarrow> session \<Rightarrow> json run" where
  "get_root_page_id e self =
     and_then (remote (GetAllPagesFromSpace (space self) 1)
                 (get_all_pages_from_space e (space self) 1)) (\<lambda>pages.
     and_then (ret (subscript0 pages)) (\<lambda>page.
     and_then (ret (subscript page ''id'')) (\<lambda>space_page_id.
     and_then (remote (GetPageAncestors space_page_id) (get_page_ancestors e space_page_id)) (\<lambda>ancestors.
     if truthy ancestors
     then and_then (ret (subscript0 ancestors)) (\<lambda>top.
          and_then (ret (subscript top ''id'')) (\<lambda>root_page_id.
          ret (Inr root_page_id)))
     else ret (Inr space_page_id)))))"

text \<open>
  The loop \<open>for child in child_pages: self.process_page_full(child['id'],
  os.path.join(path, title))\<close>, with the recursive call as the parameter \<open>rec\<close>.
\<close>

fun for_each_child ::
  "(json \<Rightarrow> string \<Rightarrow> unit run) \<Rightarrow> string \<Rightarrow> json \<Rightarrow> json list \<Rightarrow> unit run" where
  "for_each_child rec path title [] = ret (Inr ())"
| "for_each_child rec path title (child # rest) =
     and_then (ret (subscript child ''id'')) (\<lambda>child_id.
     and_then (ret (os_path_join_json path title)) (\<lambda>child_path.
     and_then (rec child_id child_path) (\<lambda>_.
     for_each_child rec path title rest)))"

text \<open>The last three lines of the guarded body: list the children and visit each.\<close>

definition visit_children ::
  "(json \<Rightarrow> string \<Rightarrow> unit run) \<Rightarrow> env \<Rightarrow> session \<Rightarrow> json \<Rightarrow> string \<Rightarrow> json \<Rightarrow> unit run" where
  "visit_children rec e self page_id path title =
     and_then (get_child_pages e self page_id) (\<lambda>child_pages.
     and_then (ret (py_iter child_pages)) (\<lambda>children.
     for_each_child rec path title children))"

text \<open>
  \<open>process_page_full\<close> follows the child lists the wiki service returns and has no
  cycle detection; what ends a recursion that goes too deep is the interpreter's
  recursion limit. The first argument counts the visits that can still nest, this one
  included. A visit for which no room is left raises \<open>RecursionError\<close> at its first
  call, which the \<open>except\<close> of line 149 catches like any other error: the visit
  returns normally and nothing below it is requested. (The calls that a visit makes
  into the readers and the sink are taken to fit whenever the visit itself does.)
\<close>

fun process_page_full :: "nat \<Rightarrow> env \<Rightarrow> session \<Rightarrow> json \<Rightarrow> string \<Rightarrow> unit run" where
  "process_page_full 0 e self page_id path =
     try_except_print (ret (Inl RecursionError) :: unit run)"
| "process_page_full (Suc room) e self page_id path =
     try_except_print
       (and_then (get_page_content e self page_id) (\<lambda>(title, content, created_date).
        let blob_name = replace_backslash (os_path_join path (fmt e title @ ''.html''));
            metadata = [(''created_date'', created_date)] in
        and_then (upload_to_azure_blob e self content blob_name metadata) (\<lambda>_.
        visit_children (process_page_full room e self) e self page_id path title)))"

text \<open>A list comprehension \<open>[f(x) for x in xs]\<close>: the first failing element raises.\<close>

fun comprehension :: "('a \<Rightarrow> exn + 'b) \<Rightarrow> 'a list \<Rightarrow> exn + 'b list" where
  "comprehension f [] = Inr []"
| "comprehension f (x # xs) =
     (case f x of
        Inl ex \<Rightarrow> Inl ex
      | Inr y \<Rightarrow> (case comprehension f xs of Inl ex \<Rightarrow> Inl ex | Inr ys \<Rightarrow> Inr (y # ys)))"

text \<open>\<open>'/'.join(items)\<close>: every item must be a string.\<close>

definition as_str :: "json \<Rightarrow> exn + string" where
  "as_str v = (case v of JStr s \<Rightarrow> Inr s | _ \<Rightarrow> Inl TypeError)"

fun slash_join :: "string list \<Rightarrow> string" where
  "slash_join [] = []"
| "slash_join [s] = s"
| "slash_join (s # t # ts) = s @ ''/'' @ slash_join (t # ts)"

definition str_join_slash :: "json list \<Rightarrow> exn + string" where
  "str_join_slash items =
     (case comprehension as_str items of Inl ex \<Rightarrow> Inl ex | Inr ss \<Rightarrow> Inr (slash_join ss))"

definition build_full_path :: "env \<Rightarrow> session \<Rightarrow> json \<Rightarrow> string run" where
  "build_full_path e self page_id =
     and_then (remote (GetPageAncestors page_id) (get_page_ancestors e page_id)) (\<lambda>ancestors.
     and_then (ret (py_iter ancestors)) (\<lambda>items.
     and_then (ret (comprehension (\<lambda>ancestor. subscript ancestor ''title'') items)) (\<lambda>ancestor_titles.
     ret (str_join_slash ancestor_titles))))"

text \<open>
  The query of the incremental sync. The clock is read twice: once for \<open>yesterday\<close>
  and once more inside the f-string, after \<open>self.space\<close> and \<open>yesterday\<close> are
  formatted.
\<close>

definition cql_query :: "env \<Rightarrow> session \<Rightarrow> string" where
  "cql_query e self =
     (let yesterday = strftime_ymd e (datetime_now e 0 - 1) in
      ''space = '' @ fmt e (space self) @ '' AND type = page AND lastmodified >= '' @ yesterday
        @ '' AND lastmodified < '' @ strftime_ymd e (datetime_now e 1))"

definition result_content_id :: "json \<Rightarrow> exn + json" where
  "result_content_id result =
     (case subscript result ''content'' of Inl ex \<Rightarrow> Inl ex | Inr c \<Rightarrow> subscript c ''id'')"

fun for_each_page_id :: "env \<Rightarrow> session \<Rightarrow> json list \<Rightarrow> unit run" where
  "for_each_page_id e self [] = ret (Inr ())"
| "for_each_page_id e self (page_id # rest) =
     and_then (get_page_content e self page_id) (\<lambda>(title, body_content, created_date).
     and_then (build_full_path e self page_id) (\<lambda>path.
     let blob_name = replace_backslash (os_path_join path (fmt e title @ ''.html''));
         metadata = [(''created_date'', created_date)] in
     and_then (upload_to_azure_blob e self body_content blob_name metadata) (\<lambda>_.
     for_each_page_id e self rest)))"

definition process_page_incremental :: "env \<Rightarrow> session \<Rightarrow> unit run" where
  "process_page_incremental e self =
     try_except_print
       (let q = cql_query e self in
        and_then (remote (Cql q ''ancestors'') (cql e q ''ancestors'')) (\<lambda>results.
        and_then (ret (subscript results ''results'')) (\<lambda>rs.
        and_then (ret (py_iter rs)) (\<lambda>items.
        and_then (ret (comprehension result_content_id items)) (\<lambda>page_ids.
        for_each_page_id e self page_ids)))))"

text \<open>
  \<open>ConfluenceSync.__init__\<close>. The constructor already talks to both services: it
  creates the container (tolerating any failure) and looks the root page up.
  \<open>root_page_id\<close> is unset (\<open>JNull\<close> here) while \<open>get_root_page_id\<close> runs.
\<close>

definition ConfluenceSync_init :: "env \<Rightarrow> json \<Rightarrow> session run" where
  "ConfluenceSync_init e space_v =
     (let url = os_getenv e ''CONFLUENCE_BASE_URL'';
          rest_url = os_getenv e ''CONFLUENCE_REST_API_URL'';
          user = os_getenv e ''ATLASSIAN_USERNAME'';
          tok = os_getenv e ''ATLASSIAN_TOKEN'' in
      and_then (ret (outcome_of (Confluence_new e url user tok))) (\<lambda>_.
      let conn = os_getenv e ''STORAGE_CONNECTION_STRING'';
          container = (if space_v = JStr ''SIA'' then ''public'' else ''private'') in
      and_then (ret (outcome_of (from_connection_string e conn))) (\<lambda>_.
      and_then (ret (outcome_of (get_container_client e container))) (\<lambda>_.
      and_then (create_container_step e container) (\<lambda>_.
      let self = \<lparr>space = space_v, base_url = url, confluence_base_url = rest_url,
                   username = user, token = tok, azure_connection_string = conn,
                   container_name = container, root_page_id = JNull\<rparr> in
      and_then (get_root_page_id e self) (\<lambda>root.
      ret (Inr (self\<lparr>root_page_id := root\<rparr>))))))))"

section \<open>The HTTP entry points\<close>

record HttpRequest =
  params :: "string \<Rightarrow> string option"
  get_json :: "exn + json"

record HttpResponse =
  body :: string
  status_code :: nat

text \<open>
  The second \<open>try\<close> block of both \<open>main\<close> functions (the same text in
  \<open>HttpTrigger/__init__.py\<close> and \<open>ConfluenceSync/__init__.py\<close>): the session is
  constructed first, the value of \<open>type\<close> is looked at afterwards.
\<close>

definition error_response :: HttpResponse where
  "error_response =
     \<lparr>body = ''An error occurred while processing the request.'', status_code = 500\<rparr>"

definition invalid_type_response :: HttpResponse where
  "invalid_type_response =
     \<lparr>body = ''Invalid 'type' parameter. Please use 'full' or 'incremental'.'', status_code = 400\<rparr>"

definition missing_parameter_response :: HttpResponse where
  "missing_parameter_response =
     \<lparr>body = ''Please pass both 'space' and 'type' parameters in the query string.'',
      status_code = 400\<rparr>"

definition sync_block :: "env \<Rightarrow> json \<Rightarrow> json \<Rightarrow> HttpResponse \<times> call list" where
  "sync_block e space_v ingestion_type =
     (case ConfluenceSync_init e space_v of
        (Inl ex, cs) \<Rightarrow> (error_response, cs)
      | (Inr confluence_sync, cs) \<Rightarrow>
          if ingestion_type = JStr ''full'' then
            (case process_page_full (Suc (recursion_room e)) e confluence_sync
                    (root_page_id confluence_sync) [] of
               (Inl ex, cs') \<Rightarrow> (error_response, cs @ cs')
             | (Inr u, cs') \<Rightarrow>
                 (\<lparr>body = ''Full sync completed for space: '' @ fmt e space_v @ ''.'',
                   status_code = 200\<rparr>, cs @ cs'))
          else if ingestion_type = JStr ''incremental'' then
            (case process_page_incremental e confluence_sync of
               (Inl ex, cs') \<Rightarrow> (error_response, cs @ cs')
             | (Inr u, cs') \<Rightarrow>
                 (\<lparr>body = ''Incremental sync completed for space: '' @ fmt e space_v @ ''.'',
                   status_code = 200\<rparr>, cs @ cs'))
          else (invalid_type_response, cs))"

text \<open>\<open>HttpTrigger/__init__.py\<close>: the parameters come from the query string.\<close>

definition HttpTrigger_main :: "env \<Rightarrow> HttpRequest \<Rightarrow> HttpResponse \<times> call list" where
  "HttpTrigger_main e req =
     (case (params req ''space'', params req ''type'') of
        (Some space_s, Some ingestion_type) \<Rightarrow>
          if space_s = [] then (missing_parameter_response, [])
          else if ingestion_type = [] then (missing_parameter_response, [])
          else sync_block e (JStr space_s) (JStr ingestion_type)
      | _ \<Rightarrow> (missing_parameter_response, []))"

text \<open>
  \<open>ConfluenceSync/__init__.py\<close>: the parameters come from the JSON body; any failure
  to read them answers 400 with the text of the exception.
\<close>

definition read_body :: "HttpRequest \<Rightarrow> exn + json \<times> json" where
  "read_body req =
     (case get_json req of
        Inl ex \<Rightarrow> Inl ex
      | Inr data \<Rightarrow>
          (case subscript data ''space'' of
             Inl ex \<Rightarrow> Inl ex
           | Inr space_v \<Rightarrow>
               (case subscript data ''type'' of
                  Inl ex \<Rightarrow> Inl ex
                | Inr ingestion_type \<Rightarrow> Inr (space_v, ingestion_type))))"

definition ConfluenceSync_main :: "env \<Rightarrow> HttpRequest \<Rightarrow> HttpResponse \<times> call list" where
  "ConfluenceSync_main e req =
     (case read_body req of
        Inl ex \<Rightarrow> (\<lparr>body = exn_str e ex, status_code = 400\<rparr>, [])
      | Inr (space_v, ingestion_type) \<Rightarrow>
          if truthy space_v then
            if truthy ingestion_type then sync_block e space_v ingestion_type
            else (missing_parameter_response, [])
          else (missing_parameter_response, []))"

section \<open>Observations\<close>

text \<open>The objects a run sent to blob storage: blob name and content, in order.\<close>

fun uploaded :: "call list \<Rightarrow> (string \<times> json) list" where
  "uploaded [] = []"
| "uploaded (UploadBlob container blob_name content # cs) = (blob_name, content) # uploaded cs"
| "uploaded (c # cs) = uploaded cs"

text \<open>The calls that constructing a session can make.\<close>

fun is_session_call :: "call \<Rightarrow> bool" where
  "is_session_call (CreateContainer container) = True"
| "is_session_call (GetAllPagesFromSpace space_v limit) = True"
| "is_session_call (GetPageAncestors page_id) = True"
| "is_session_call c = False"

definition status_and_calls :: "HttpResponse \<times> call list \<Rightarrow> nat \<times> call list" where
  "status_and_calls r = (case r of (response, cs) \<Rightarrow> (status_code response, cs))"

text \<open>
  A query parameter that is missing or empty; a key of the JSON body that cannot be read
  or whose value is empty (false in Python's truth test).
\<close>

definition param_missing :: "HttpRequest \<Rightarrow> string \<Rightarrow> bool" where
  "param_missing req k = (case params req k of None \<Rightarrow> True | Some v \<Rightarrow> v = [])"

definition body_key_missing :: "HttpRequest \<Rightarrow> string \<Rightarrow> bool" where
  "body_key_missing req k =
     (case get_json req of
        Inl ex \<Rightarrow> True
      | Inr data \<Rightarrow> (case subscript data k of Inl ex \<Rightarrow> True | Inr v \<Rightarrow> \<not> truthy v))"

text \<open>The blob name that a visit computes from its path prefix and the fetched title.\<close>

definition blob_name_for :: "env \<Rightarrow> string \<Rightarrow> json \<Rightarrow> string" where
  "blob_name_for e path title = replace_backslash (os_path_join path (fmt e title @ ''.html''))"

text \<open>
  The specification's wording of the blob path: the ancestor titles, root first, joined
  by a slash, followed by \<open><title>.html\<close>.
\<close>

definition spec_blob_path :: "string list \<Rightarrow> string \<Rightarrow> string" where
  "spec_blob_path ancestors title = slash_join (ancestors @ [title @ ''.html''])"

section \<open>A sample site\<close>

text \<open>
  A small wiki for concrete runs. Space \<open>DOC\<close>: Home (1) with the children Guide (2)
  and FAQ (3), Guide with the child Setup (4). A second tree: Root (6) with one child
  whose title is \<open>/x\<close> (5), which has the child y (9). A third: Top (8) with the
  children 7, whose fetch answers 500 while its child listing names page 4, and
  FAQ (3). Page 10, Loop, lists itself as its child and is the one page of space
  \<open>LOOP\<close>. The title of page 11 is a single character that stdout cannot encode
  (the byte \<open>0xFF\<close> stands for a lone surrogate); its child listing names page 4.
  Two visits can nest below the first.
\<close>

definition page_doc :: "string \<Rightarrow> string \<Rightarrow> string \<Rightarrow> json" where
  "page_doc title content modified =
     JObj [(''title'', JStr title),
           (''body'', JObj [(''storage'', JObj [(''value'', JStr content)])]),
           (''version'', JObj [(''when'', JStr modified)])]"

definition children_doc :: "string list \<Rightarrow> json" where
  "children_doc ids = JObj [(''results'', JArr (map (\<lambda>i. JObj [(''id'', JStr i)]) ids))]"

definition wiki_documents :: "(string \<times> json) list" where
  "wiki_documents =
     [(''api/1'', page_doc ''Home'' ''h'' ''d1''),
      (''api/1/child/page'', children_doc [''2'', ''3'']),
      (''api/2'', page_doc ''Guide'' ''g'' ''d2''),
      (''api/2/child/page'', children_doc [''4'']),
      (''api/3'', page_doc ''FAQ'' ''f'' ''d3''),
      (''api/3/child/page'', children_doc []),
      (''api/4'', page_doc ''Setup'' ''s'' ''d4''),
      (''api/4/child/page'', children_doc []),
      (''api/5'', page_doc ''/x'' ''x'' ''d5''),
      (''api/5/child/page'', children_doc [''9'']),
      (''api/6'', page_doc ''Root'' ''r'' ''d6''),
      (''api/6/child/page'', children_doc [''5'']),
      (''api/7/child/page'', children_doc [''4'']),
      (''api/8'', page_doc ''Top'' ''t'' ''d8''),
      (''api/8/child/page'', children_doc [''7'', ''3'']),
      (''api/9'', page_doc ''y'' ''y'' ''d9''),
      (''api/9/child/page'', children_doc []),
      (''api/10'', page_doc ''Loop'' ''l'' ''d10''),
      (''api/10/child/page'', children_doc [''10'']),
      (''api/11'', page_doc [CHR 0xFF] ''u'' ''d11''),
      (''api/11/child/page'', children_doc [''4''])]"

definition wiki_get ::
  "string \<Rightarrow> string option \<times> string option \<Rightarrow> (string \<times> string) list \<Rightarrow> exn + http_response" where
  "wiki_get url auth ps =
     (case map_of wiki_documents url of
        Some d \<Rightarrow> Inr \<lparr>http_status = 200, http_json = Inr d\<rparr>
      | None \<Rightarrow> Inr \<lparr>http_status = 500, http_json = Inl (External ''no JSON'')\<rparr>)"

definition wiki_ancestors :: "json \<Rightarrow> exn + json" where
  "wiki_ancestors page_id =
     (if page_id = JStr ''4''
      then Inr (JArr [JObj [(''id'', JStr ''1''), (''title'', JStr ''Home'')],
                      JObj [(''id'', JStr ''2''), (''title'', JStr ''Guide'')]])
      else if page_id = JStr ''2'' \<or> page_id = JStr ''3''
      then Inr (JArr [JObj [(''id'', JStr ''1''), (''title'', JStr ''Home'')]])
      else if page_id = JStr ''9''
      then Inr (JArr [JObj [(''id'', JStr ''6''), (''title'', JStr ''Root'')],
                      JObj [(''id'', JStr ''5''), (''title'', JStr ''/x'')]])
      else Inr (JArr []))"

definition wiki_pages_of_space :: "json \<Rightarrow> nat \<Rightarrow> exn + json" where
  "wiki_pages_of_space space_v limit =
     (if space_v = JStr ''DOC'' then Inr (JArr [JObj [(''id'', JStr ''4'')]])
      else if space_v = JStr ''SIA'' then Inr (JArr [JObj [(''id'', JStr ''1'')]])
      else if space_v = JStr ''LOOP'' then Inr (JArr [JObj [(''id'', JStr ''10'')]])
      else Inr (JArr []))"

definition search_results :: "string list \<Rightarrow> json" where
  "search_results ids =
     JObj [(''results'', JArr (map (\<lambda>i. JObj [(''content'', JObj [(''id'', JStr i)])]) ids))]"

definition wiki_cql :: "string \<Rightarrow> string \<Rightarrow> exn + json" where
  "wiki_cql q expand =
     (if q = ''space = DOC AND type = page AND lastmodified >= 2024-04-30 AND lastmodified < 2024-05-01''
      then Inr (search_results [''2'', ''4''])
      else Inr (search_results []))"

definition wiki_env :: env where
  "wiki_env =
     \<lparr>os_getenv = (\<lambda>name. if name = ''CONFLUENCE_REST_API_URL'' then Some ''api'' else None),
      Confluence_new = (\<lambda>url user tok. None),
      from_connection_string = (\<lambda>conn. None),
      get_container_client = (\<lambda>container. None),
      create_container = (\<lambda>container. None),
      get_blob_client = (\<lambda>container blob_name. None),
      upload_blob = (\<lambda>container blob_name content. None),
      set_blob_metadata = (\<lambda>container blob_name metadata. None),
      requests_get = wiki_get,
      get_all_pages_from_space = wiki_pages_of_space,
      get_page_ancestors = wiki_ancestors,
      cql = wiki_cql,
      datetime_now = (\<lambda>i. 19844),
      strftime_ymd = (\<lambda>d. if d = 19844 then ''2024-05-01'' else if d = 19843 then ''2024-04-30'' else ''?''),
      py_str = (\<lambda>v. ''?''),
      exn_str = (\<lambda>ex. ''?''),
      stdout_encodes = (\<lambda>c. c \<noteq> CHR 0xFF),
      recursion_room = Suc (Suc 0)\<rparr>"

text \<open>The same site with blob storage refusing every upload.\<close>

definition storage_down_env :: env where
  "storage_down_env = wiki_env\<lparr>upload_blob := (\<lambda>container blob_name content. Some (External ''storage''))\<rparr>"

text \<open>The same site with every page request failing and every upload refused.\<close>

definition all_down_env :: env where
  "all_down_env =
     wiki_env\<lparr>upload_blob := (\<lambda>container blob_name content. Some (External ''storage'')),
              requests_get := (\<lambda>url auth ps. Inl (External ''connection''))\<rparr>"

text \<open>The same site with a query that returns page 7 and then page 3.\<close>

definition bad_page_env :: env where
  "bad_page_env = wiki_env\<lparr>cql := (\<lambda>q expand. Inr (search_results [''7'', ''3'']))\<rparr>"

definition doc_session :: session where
  "doc_session =
     \<lparr>space = JStr ''DOC'', base_url = None, confluence_base_url = Some ''api'',
      username = None, token = None, azure_connection_string = None,
      container_name = ''private'', root_page_id = JStr ''1''\<rparr>"

definition loop_session :: session where
  "loop_session = doc_session\<lparr>space := JStr ''LOOP'', root_page_id := JStr ''10''\<rparr>"

definition query_request :: "string \<Rightarrow> string \<Rightarrow> HttpRequest" where
  "query_request space_s type_s =
     \<lparr>params = (\<lambda>k. if k = ''space'' then Some space_s else if k = ''type'' then Some type_s else None),
      get_json = Inl (External ''no body'')\<rparr>"

definition body_request :: "json \<Rightarrow> HttpRequest" where
  "body_request data = \<lparr>params = (\<lambda>k. None), get_json = Inr data\<rparr>"

section \<open>Basic facts about runs\<close>

lemma and_then_Inl [simp]: "and_then (Inl ex, cs) f = (Inl ex, cs)"
  by (simp add: and_then_def)

lemma and_then_Inr [simp]: "and_then (Inr x, cs) f = (case f x of (r, cs') \<Rightarrow> (r, cs @ cs'))"
  by (simp add: and_then_def)

lemma and_then_ret_Inl [simp]: "and_then (ret (Inl ex)) f = (Inl ex, [])"
  by (simp add: ret_def)

lemma and_then_ret_Inr [simp]: "and_then (ret (Inr x)) f = f x"
  by (simp add: ret_def split: prod.split)

lemma fst_try_except_print [simp]: "fst (try_except_print m) = Inr ()"
  by (simp add: try_except_print_def split: prod.split)

lemma snd_try_except_print [simp]: "snd (try_except_print m) = snd m"
  by (simp add: try_except_print_def split: prod.split)

lemma ret_case: "and_then (ret r) f = (case r of Inl ex \<Rightarrow> (Inl ex, []) | Inr x \<Rightarrow> f x)"
  by (cases r) simp_all

lemma remote_case:
  "and_then (remote c r) f =
     (case r of Inl ex \<Rightarrow> (Inl ex, [c]) | Inr x \<Rightarrow> (case f x of (r', cs) \<Rightarrow> (r', c # cs)))"
  by (cases r) (simp_all add: remote_def)

lemma snd_and_then_all:
  assumes "list_all P (snd m)" and "\<And>x. list_all P (snd (f x))"
  shows "list_all P (snd (and_then m f))"
proof (cases m)
  case (Pair r cs)
  show ?thesis
  proof (cases r)
    case (Inl ex)
    with Pair assms(1) show ?thesis by simp
  next
    case (Inr x)
    with Pair assms(1) assms(2) [of x] show ?thesis
      by (cases "f x") simp
  qed
qed


lemma and_then_nil:
  "and_then (r, []) f = (case r of Inl ex \<Rightarrow> (Inl ex, []) | Inr x \<Rightarrow> f x)"
  by (cases r) simp_all

section \<open>The readers and the sink\<close>

text \<open>
  C9. \<open>get_updated_page_content\<close> issues the same request as \<open>get_page_content\<close>, reads
  the answer in the same way, and so returns the same triple, raises the same
  exception and makes the same call, for every page identifier and every upstream
  answer.
\<close>

theorem get_updated_page_content_eq:
  "get_updated_page_content e self page_id = get_page_content e self page_id"
  by (simp add: get_updated_page_content_def get_page_content_def page_params_def)

text \<open>
  C8. \<open>get_root_page_id\<close> asks for one page of the space. When the space has no
  page, indexing the empty list raises (Python's \<open>IndexError\<close> is the failure the
  specification calls NotFoundError). When the page has no ancestors it is the root
  itself; otherwise the root is the first element of its ancestor list.
\<close>

theorem get_root_page_id_cases:
  "(get_all_pages_from_space e (space self) 1 = Inr (JArr []) \<longrightarrow>
      get_root_page_id e self = (Inl IndexError, [GetAllPagesFromSpace (space self) 1]))
   \<and> (get_all_pages_from_space e (space self) 1 = Inr (JArr (page # pages)) \<and>
        subscript page ''id'' = Inr space_page_id \<and>
        get_page_ancestors e space_page_id = Inr ancestors \<and> \<not> truthy ancestors \<longrightarrow>
      get_root_page_id e self =
        (Inr space_page_id, [GetAllPagesFromSpace (space self) 1, GetPageAncestors space_page_id]))
   \<and> (get_all_pages_from_space e (space self) 1 = Inr (JArr (page # pages)) \<and>
        subscript page ''id'' = Inr space_page_id \<and>
        get_page_ancestors e space_page_id = Inr (JArr (ancestor # others)) \<and>
        subscript ancestor ''id'' = Inr root_id \<longrightarrow>
      get_root_page_id e self =
        (Inr root_id, [GetAllPagesFromSpace (space self) 1, GetPageAncestors space_page_id]))"
  by (simp add: get_root_page_id_def remote_case ret_case ret_def)

text \<open>
  On the sample site: a space without pages, space \<open>SIA\<close> whose page 1 has no
  ancestors, and space \<open>DOC\<close> whose page 4 has the ancestors 1 and 2.
\<close>

theorem get_root_page_id_cases_witness:
  "get_root_page_id wiki_env (doc_session\<lparr>space := JStr ''EMPTY''\<rparr>)
     = (Inl IndexError, [GetAllPagesFromSpace (JStr ''EMPTY'') 1])
   \<and> get_root_page_id wiki_env (doc_session\<lparr>space := JStr ''SIA''\<rparr>)
     = (Inr (JStr ''1''), [GetAllPagesFromSpace (JStr ''SIA'') 1, GetPageAncestors (JStr ''1'')])
   \<and> get_root_page_id wiki_env doc_session
     = (Inr (JStr ''1''), [GetAllPagesFromSpace (JStr ''DOC'') 1, GetPageAncestors (JStr ''4'')])"
  using get_root_page_id_cases [of wiki_env "doc_session\<lparr>space := JStr ''EMPTY''\<rparr>"]
    get_root_page_id_cases [of wiki_env "doc_session\<lparr>space := JStr ''SIA''\<rparr>"
      "JObj [(''id'', JStr ''1'')]" "[]" "JStr ''1''" "JArr []"]
    get_root_page_id_cases [of wiki_env doc_session
      "JObj [(''id'', JStr ''4'')]" "[]" "JStr ''4''" _ "JObj [(''id'', JStr ''1''), (''title'', JStr ''Home'')]"
      "[JObj [(''id'', JStr ''2''), (''title'', JStr ''Guide'')]]" "JStr ''1''"]
  by (simp add: wiki_env_def doc_session_def wiki_pages_of_space_def wiki_ancestors_def)


text \<open>
  Whatever storage does, the upload operation returns normally exactly when the blob
  name can be printed: a storage failure is caught, but both the line of the success
  and the line of the handler hold the blob name.
\<close>

lemma upload_outcome:
  "fst (upload_to_azure_blob e self content blob_name metadata) = print_line e blob_name"
  by (simp add: upload_to_azure_blob_def remote_case ret_def and_then_nil outcome_of_def
      split: option.split sum.split prod.split)

text \<open>
  The definitions that a concrete run unfolds, and those of the sample site.
\<close>

lemmas run_defs =
  get_page_content_def get_child_pages_def upload_to_azure_blob_def build_full_path_def
  visit_children_def print_line_def
  raise_for_status_def remote_def ret_def try_except_print_def outcome_of_def
  fmt_def fmt_opt_def os_path_join_def os_path_join_json_def replace_backslash_def
  str_join_slash_def as_str_def Let_def

lemmas site_defs =
  wiki_env_def storage_down_env_def all_down_env_def bad_page_env_def doc_session_def
  wiki_get_def wiki_documents_def page_doc_def children_doc_def wiki_ancestors_def
  wiki_cql_def search_results_def

text \<open>
  C7. The claim holds for every blob name that stdout can encode (\<open>upload_outcome\<close>)
  but not for every input: for the blob name of page 11 the upload operation raises
  \<open>UnicodeEncodeError\<close> to its caller, when storage accepts the upload (the line
  \<open>Uploaded ...\<close> raises inside the \<open>try\<close>, then the handler's own line raises)
  and when storage refuses it (the handler's line raises).
\<close>

theorem upload_raises_on_unprintable_name:
  "upload_to_azure_blob wiki_env doc_session (JStr ''u'') (CHR 0xFF # ''.html'')
       [(''created_date'', JStr ''d11'')] =
     (Inl UnicodeEncodeError,
      [UploadBlob ''private'' (CHR 0xFF # ''.html'') (JStr ''u''),
       SetBlobMetadata ''private'' (CHR 0xFF # ''.html'') [(''created_date'', JStr ''d11'')]])
   \<and> upload_to_azure_blob storage_down_env doc_session (JStr ''u'') (CHR 0xFF # ''.html'')
       [(''created_date'', JStr ''d11'')] =
     (Inl UnicodeEncodeError, [UploadBlob ''private'' (CHR 0xFF # ''.html'') (JStr ''u'')])"
  by (simp add: run_defs site_defs)


section \<open>Request validation\<close>

text \<open>
  C6. A request to the query-string entry point whose \<open>space\<close> or \<open>type\<close> parameter
  is missing or empty, and a request to the JSON entry point whose body cannot be
  read, lacks one of the two keys or holds an empty value for one, is answered with
  status 400 before any upstream call is made.
\<close>

theorem missing_parameter_400:
  "(param_missing req ''space'' \<or> param_missing req ''type'' \<longrightarrow>
      status_and_calls (HttpTrigger_main e req) = (400, []))
   \<and> (body_key_missing req ''space'' \<or> body_key_missing req ''type'' \<longrightarrow>
      status_and_calls (ConfluenceSync_main e req) = (400, []))"
  by (auto simp: param_missing_def body_key_missing_def HttpTrigger_main_def
      ConfluenceSync_main_def read_body_def status_and_calls_def missing_parameter_response_def
      split: option.splits sum.splits)

text \<open>
  An empty \<open>space\<close> in the query string; a body without the key \<open>space\<close>.
\<close>

theorem missing_parameter_400_witness:
  "status_and_calls (HttpTrigger_main wiki_env (query_request [] ''full'')) = (400, [])
   \<and> status_and_calls (ConfluenceSync_main wiki_env (body_request (JObj [(''type'', JStr ''full'')])))
       = (400, [])"
  using missing_parameter_400 [of "query_request [] ''full''" wiki_env]
    missing_parameter_400 [of "body_request (JObj [(''type'', JStr ''full'')])" wiki_env]
  by (simp add: param_missing_def body_key_missing_def query_request_def body_request_def)

lemma get_root_page_id_calls: "list_all is_session_call (snd (get_root_page_id e self))"
  unfolding get_root_page_id_def
  by (auto intro!: snd_and_then_all simp: remote_def ret_def)

lemma ConfluenceSync_init_calls: "list_all is_session_call (snd (ConfluenceSync_init e space_v))"
  unfolding ConfluenceSync_init_def Let_def
  by (intro snd_and_then_all get_root_page_id_calls)
    (simp_all add: remote_def ret_def create_container_step_def)

lemma sync_block_unknown_type:
  assumes "ty \<noteq> JStr ''full''" and "ty \<noteq> JStr ''incremental''"
  shows "status_and_calls (sync_block e sp ty) =
    (case ConfluenceSync_init e sp of (Inl ex, cs) \<Rightarrow> (500, cs) | (Inr s, cs) \<Rightarrow> (400, cs))"
  using assms
  by (simp add: sync_block_def status_and_calls_def error_response_def invalid_type_response_def
      split: prod.split sum.split)

lemma doc_init:
  "ConfluenceSync_init wiki_env (JStr ''DOC'') =
     (Inr doc_session,
      [CreateContainer ''private'', GetAllPagesFromSpace (JStr ''DOC'') 1, GetPageAncestors (JStr ''4'')])"
  by (simp add: ConfluenceSync_init_def wiki_env_def doc_session_def create_container_step_def
      get_root_page_id_def remote_def ret_def outcome_of_def try_except_print_def
      wiki_pages_of_space_def wiki_ancestors_def Let_def)

lemma empty_init:
  "ConfluenceSync_init wiki_env (JStr ''EMPTY'') =
     (Inl IndexError, [CreateContainer ''private'', GetAllPagesFromSpace (JStr ''EMPTY'') 1])"
  by (simp add: ConfluenceSync_init_def wiki_env_def create_container_step_def
      get_root_page_id_def remote_def ret_def outcome_of_def try_except_print_def
      wiki_pages_of_space_def Let_def)

text \<open>
  C2, as the specification states it, fails: with \<open>type=archive\<close> the session is
  constructed before the value is looked at, so the container is created and the root
  page is looked up before the 400 is returned; and for a space without pages the
  construction raises and the answer is 500.
\<close>

theorem unknown_type_calls_upstream:
  "status_and_calls (HttpTrigger_main wiki_env (query_request ''DOC'' ''archive''))
     = (400, [CreateContainer ''private'', GetAllPagesFromSpace (JStr ''DOC'') 1,
              GetPageAncestors (JStr ''4'')])
   \<and> status_and_calls (HttpTrigger_main wiki_env (query_request ''EMPTY'' ''archive''))
     = (500, [CreateContainer ''private'', GetAllPagesFromSpace (JStr ''EMPTY'') 1])"
  by (simp add: HttpTrigger_main_def query_request_def sync_block_def doc_init empty_init
      status_and_calls_def invalid_type_response_def error_response_def)

text \<open>
  C2, amended. For a request to either entry point with a non-empty \<open>space\<close> and a
  present \<open>type\<close> that is neither \<open>full\<close> nor \<open>incremental\<close>, the session is
  constructed first: the answer is 400 when the construction succeeds and 500 when it
  raises, and the upstream calls made are those of the construction alone (create the
  container, list one page of the space, look up its ancestors): no page is fetched,
  nothing is queried and nothing is uploaded.
\<close>

theorem unknown_type_response:
  "(params req ''space'' = Some sp \<and> sp \<noteq> [] \<and> params req ''type'' = Some ty \<and> ty \<noteq> []
      \<and> ty \<noteq> ''full'' \<and> ty \<noteq> ''incremental'' \<longrightarrow>
      status_and_calls (HttpTrigger_main e req) =
        (case ConfluenceSync_init e (JStr sp) of
           (Inl ex, cs) \<Rightarrow> (500, cs) | (Inr s, cs) \<Rightarrow> (400, cs))
      \<and> list_all is_session_call (snd (ConfluenceSync_init e (JStr sp))))
   \<and> (get_json req = Inr data \<and> subscript data ''space'' = Inr space_v \<and> truthy space_v
      \<and> subscript data ''type'' = Inr type_v \<and> truthy type_v
      \<and> type_v \<noteq> JStr ''full'' \<and> type_v \<noteq> JStr ''incremental'' \<longrightarrow>
      status_and_calls (ConfluenceSync_main e req) =
        (case ConfluenceSync_init e space_v of
           (Inl ex, cs) \<Rightarrow> (500, cs) | (Inr s, cs) \<Rightarrow> (400, cs))
      \<and> list_all is_session_call (snd (ConfluenceSync_init e space_v)))"
  by (simp add: HttpTrigger_main_def ConfluenceSync_main_def read_body_def
      sync_block_unknown_type ConfluenceSync_init_calls)

theorem unknown_type_response_witness:
  "status_and_calls (HttpTrigger_main wiki_env (query_request ''DOC'' ''archive''))
     = (400, [CreateContainer ''private'', GetAllPagesFromSpace (JStr ''DOC'') 1,
              GetPageAncestors (JStr ''4'')])
   \<and> status_and_calls (ConfluenceSync_main wiki_env
        (body_request (JObj [(''space'', JStr ''DOC''), (''type'', JStr ''archive'')])))
     = (400, [CreateContainer ''private'', GetAllPagesFromSpace (JStr ''DOC'') 1,
              GetPageAncestors (JStr ''4'')])"
  using unknown_type_response [where req = "query_request ''DOC'' ''archive''" and sp = "''DOC''"
      and ty = "''archive''" and e = wiki_env
      and data = "JObj [(''space'', JStr ''DOC''), (''type'', JStr ''archive'')]"
      and space_v = "JStr ''DOC''" and type_v = "JStr ''archive''"]
    unknown_type_response [where
      req = "body_request (JObj [(''space'', JStr ''DOC''), (''type'', JStr ''archive'')])"
      and sp = "''DOC''" and ty = "''archive''" and e = wiki_env
      and data = "JObj [(''space'', JStr ''DOC''), (''type'', JStr ''archive'')]"
      and space_v = "JStr ''DOC''" and type_v = "JStr ''archive''"]
  by (simp add: query_request_def body_request_def doc_init)

section \<open>Full sync\<close>

lemma process_page_full_returns_normally:
  "fst (process_page_full room e self page_id path) = Inr ()"
  by (cases room) simp_all

lemma HttpTrigger_main_sync:
  assumes "params req ''space'' = Some sp" and "sp \<noteq> []"
    and "params req ''type'' = Some ty" and "ty \<noteq> []"
  shows "HttpTrigger_main e req = sync_block e (JStr sp) (JStr ty)"
  using assms by (simp add: HttpTrigger_main_def)

lemma ConfluenceSync_main_sync:
  assumes "get_json req = Inr data" and "subscript data ''space'' = Inr space_v"
    and "subscript data ''type'' = Inr type_v" and "truthy space_v" and "truthy type_v"
  shows "ConfluenceSync_main e req = sync_block e space_v type_v"
  using assms by (simp add: ConfluenceSync_main_def read_body_def)

lemma sync_block_full:
  assumes "ConfluenceSync_init e space_v = (Inr self, ics)"
  shows "sync_block e space_v (JStr ''full'') =
    (\<lparr>body = ''Full sync completed for space: '' @ fmt e space_v @ ''.'', status_code = 200\<rparr>,
     ics @ snd (process_page_full (Suc (recursion_room e)) e self (root_page_id self) []))"
proof -
  obtain r cs where run: "process_page_full (Suc (recursion_room e)) e self (root_page_id self) [] = (r, cs)"
    by (cases "process_page_full (Suc (recursion_room e)) e self (root_page_id self) []")
  with process_page_full_returns_normally [of "Suc (recursion_room e)" e self "root_page_id self" "[]"]
  have "r = Inr ()" by (simp del: process_page_full.simps)
  with assms run show ?thesis
    by (simp add: sync_block_def del: process_page_full.simps)
qed

text \<open>
  C10. \<open>process_page_full\<close> never hands an exception to its caller, whatever the
  page fetches, the uploads and the child listings do and however deep or cyclic the
  listings are: every error of its body, the \<open>UnicodeEncodeError\<close> of an upload and
  the \<open>RecursionError\<close> at the recursion limit included, is caught by its
  \<open>except\<close>. So, once the session is constructed, a full-sync request to either
  entry point is answered 200 with the success message.
\<close>

theorem full_sync_answers_200:
  "fst (process_page_full room e self' page_id path) = Inr ()
   \<and> (ConfluenceSync_init e space_v = (Inr self, ics) \<longrightarrow>
       (params req ''space'' = Some sp \<and> sp \<noteq> [] \<and> space_v = JStr sp
          \<and> params req ''type'' = Some ''full'' \<longrightarrow>
        HttpTrigger_main e req =
          (\<lparr>body = ''Full sync completed for space: '' @ sp @ ''.'', status_code = 200\<rparr>,
           ics @ snd (process_page_full (Suc (recursion_room e)) e self (root_page_id self) [])))
     \<and> (get_json req = Inr data \<and> subscript data ''space'' = Inr space_v \<and> truthy space_v
          \<and> subscript data ''type'' = Inr (JStr ''full'') \<longrightarrow>
        ConfluenceSync_main e req =
          (\<lparr>body = ''Full sync completed for space: '' @ fmt e space_v @ ''.'', status_code = 200\<rparr>,
           ics @ snd (process_page_full (Suc (recursion_room e)) e self (root_page_id self) []))))"
proof (intro conjI impI)
  show "fst (process_page_full room e self' page_id path) = Inr ()"
    by (rule process_page_full_returns_normally)
next
  assume init: "ConfluenceSync_init e space_v = (Inr self, ics)"
    and req: "params req ''space'' = Some sp \<and> sp \<noteq> [] \<and> space_v = JStr sp
          \<and> params req ''type'' = Some ''full''"
  then show "HttpTrigger_main e req =
          (\<lparr>body = ''Full sync completed for space: '' @ sp @ ''.'', status_code = 200\<rparr>,
           ics @ snd (process_page_full (Suc (recursion_room e)) e self (root_page_id self) []))"
    using HttpTrigger_main_sync [of req sp "''full''" e] sync_block_full [OF init]
    by (simp add: fmt_def del: process_page_full.simps)
next
  assume init: "ConfluenceSync_init e space_v = (Inr self, ics)"
    and req: "get_json req = Inr data \<and> subscript data ''space'' = Inr space_v \<and> truthy space_v
          \<and> subscript data ''type'' = Inr (JStr ''full'')"
  then show "ConfluenceSync_main e req =
          (\<lparr>body = ''Full sync completed for space: '' @ fmt e space_v @ ''.'', status_code = 200\<rparr>,
           ics @ snd (process_page_full (Suc (recursion_room e)) e self (root_page_id self) []))"
    using ConfluenceSync_main_sync [of req data space_v "JStr ''full''" e] sync_block_full [OF init]
    by (simp del: process_page_full.simps)
qed

lemma all_down_init:
  "ConfluenceSync_init all_down_env (JStr ''DOC'') =
     (Inr doc_session,
      [CreateContainer ''private'', GetAllPagesFromSpace (JStr ''DOC'') 1, GetPageAncestors (JStr ''4'')])"
  by (simp add: ConfluenceSync_init_def all_down_env_def wiki_env_def doc_session_def
      create_container_step_def get_root_page_id_def remote_def ret_def outcome_of_def
      try_except_print_def wiki_pages_of_space_def wiki_ancestors_def Let_def)

lemma loop_init:
  "ConfluenceSync_init wiki_env (JStr ''LOOP'') =
     (Inr loop_session,
      [CreateContainer ''private'', GetAllPagesFromSpace (JStr ''LOOP'') 1, GetPageAncestors (JStr ''10'')])"
  by (simp add: ConfluenceSync_init_def wiki_env_def doc_session_def loop_session_def
      create_container_step_def get_root_page_id_def remote_def ret_def outcome_of_def
      try_except_print_def wiki_pages_of_space_def wiki_ancestors_def Let_def)

lemma all_down_root:
  "process_page_full (Suc (recursion_room all_down_env)) all_down_env doc_session
       (root_page_id doc_session) [] =
     (Inr (), [HttpGet ''api/1'' page_params])"
  by (simp add: run_defs site_defs)

lemma loop_run:
  "process_page_full (Suc (recursion_room wiki_env)) wiki_env loop_session
       (root_page_id loop_session) [] =
     (Inr (),
      [HttpGet ''api/10'' page_params, UploadBlob ''private'' ''Loop.html'' (JStr ''l''),
       SetBlobMetadata ''private'' ''Loop.html'' [(''created_date'', JStr ''d10'')],
       HttpGet ''api/10/child/page'' [],
       HttpGet ''api/10'' page_params, UploadBlob ''private'' ''Loop/Loop.html'' (JStr ''l''),
       SetBlobMetadata ''private'' ''Loop/Loop.html'' [(''created_date'', JStr ''d10'')],
       HttpGet ''api/10/child/page'' [],
       HttpGet ''api/10'' page_params, UploadBlob ''private'' ''Loop/Loop/Loop.html'' (JStr ''l''),
       SetBlobMetadata ''private'' ''Loop/Loop/Loop.html'' [(''created_date'', JStr ''d10'')],
       HttpGet ''api/10/child/page'' []])"
  by (simp add: run_defs site_defs loop_session_def)

text \<open>
  On the sample site with every page request failing and every upload refused, the
  full sync of space \<open>DOC\<close> answers 200 after the one failed request for the root.
  The full sync of space \<open>LOOP\<close>, whose page lists itself, answers 200 as well:
  three visits nest, the fourth finds no room.
\<close>

theorem full_sync_answers_200_witness:
  "HttpTrigger_main all_down_env (query_request ''DOC'' ''full'') =
     (\<lparr>body = ''Full sync completed for space: DOC.'', status_code = 200\<rparr>,
      [CreateContainer ''private'', GetAllPagesFromSpace (JStr ''DOC'') 1,
       GetPageAncestors (JStr ''4''), HttpGet ''api/1'' page_params])
   \<and> HttpTrigger_main wiki_env (query_request ''LOOP'' ''full'') =
     (\<lparr>body = ''Full sync completed for space: LOOP.'', status_code = 200\<rparr>,
      [CreateContainer ''private'', GetAllPagesFromSpace (JStr ''LOOP'') 1,
       GetPageAncestors (JStr ''10''),
       HttpGet ''api/10'' page_params, UploadBlob ''private'' ''Loop.html'' (JStr ''l''),
       SetBlobMetadata ''private'' ''Loop.html'' [(''created_date'', JStr ''d10'')],
       HttpGet ''api/10/child/page'' [],
       HttpGet ''api/10'' page_params, UploadBlob ''private'' ''Loop/Loop.html'' (JStr ''l''),
       SetBlobMetadata ''private'' ''Loop/Loop.html'' [(''created_date'', JStr ''d10'')],
       HttpGet ''api/10/child/page'' [],
       HttpGet ''api/10'' page_params, UploadBlob ''private'' ''Loop/Loop/Loop.html'' (JStr ''l''),
       SetBlobMetadata ''private'' ''Loop/Loop/Loop.html'' [(''created_date'', JStr ''d10'')],
       HttpGet ''api/10/child/page'' []])"
  using full_sync_answers_200 [where e = all_down_env and space_v = "JStr ''DOC''"
      and self = doc_session and sp = "''DOC''" and req = "query_request ''DOC'' ''full''"
      and ics = "[CreateContainer ''private'', GetAllPagesFromSpace (JStr ''DOC'') 1,
                  GetPageAncestors (JStr ''4'')]"]
    full_sync_answers_200 [where e = wiki_env and space_v = "JStr ''LOOP''"
      and self = loop_session and sp = "''LOOP''" and req = "query_request ''LOOP'' ''full''"
      and ics = "[CreateContainer ''private'', GetAllPagesFromSpace (JStr ''LOOP'') 1,
                  GetPageAncestors (JStr ''10'')]"]
  by (simp add: all_down_init loop_init all_down_root loop_run query_request_def
      del: process_page_full.simps)

lemma get_page_content_calls:
  "snd (get_page_content e self page_id) =
     [HttpGet (fmt_opt (confluence_base_url self) @ ''/'' @ fmt e page_id) page_params]"
  by (simp add: get_page_content_def remote_case ret_def and_then_nil Let_def
      split: sum.split prod.split)

lemma process_page_full_fetch_fails:
  assumes "fst (get_page_content e self page_id) = Inl ex"
  shows "process_page_full (Suc room) e self page_id path =
    (Inr (), [HttpGet (fmt_opt (confluence_base_url self) @ ''/'' @ fmt e page_id) page_params])"
proof -
  obtain r cs where rc: "get_page_content e self page_id = (r, cs)"
    by (cases "get_page_content e self page_id")
  with assms get_page_content_calls [of e self page_id] show ?thesis
    by (simp add: try_except_print_def)
qed

lemma process_page_full_upload_raises:
  assumes "get_page_content e self page_id = (Inr (title, content, modified), cs1)"
    and "\<not> list_all (stdout_encodes e) (blob_name_for e path title)"
  shows "process_page_full (Suc room) e self page_id path =
    (Inr (), cs1 @ snd (upload_to_azure_blob e self content (blob_name_for e path title)
                         [(''created_date'', modified)]))"
proof -
  obtain r cs where up: "upload_to_azure_blob e self content (blob_name_for e path title)
      [(''created_date'', modified)] = (r, cs)"
    by (cases "upload_to_azure_blob e self content (blob_name_for e path title) [(''created_date'', modified)]")
  with upload_outcome [of e self content "blob_name_for e path title" "[(''created_date'', modified)]"] assms(2)
  have "r = Inl UnicodeEncodeError"
    by (simp add: print_line_def)
  with assms(1) up show ?thesis
    by (simp add: try_except_print_def blob_name_for_def)
qed

lemma process_page_full_upload_returns:
  assumes "get_page_content e self page_id = (Inr (title, content, modified), cs1)"
    and "list_all (stdout_encodes e) (blob_name_for e path title)"
  shows "process_page_full (Suc room) e self page_id path =
    (Inr (), cs1 @ snd (upload_to_azure_blob e self content (blob_name_for e path title)
                         [(''created_date'', modified)])
                 @ snd (visit_children (process_page_full room e self) e self page_id path title))"
proof -
  obtain r cs where up: "upload_to_azure_blob e self content (blob_name_for e path title)
      [(''created_date'', modified)] = (r, cs)"
    by (cases "upload_to_azure_blob e self content (blob_name_for e path title) [(''created_date'', modified)]")
  with upload_outcome [of e self content "blob_name_for e path title" "[(''created_date'', modified)]"] assms(2)
  have "r = Inr ()"
    by (simp add: print_line_def)
  with assms(1) up show ?thesis
    by (cases "visit_children (process_page_full room e self) e self page_id path title")
      (simp add: try_except_print_def blob_name_for_def)
qed

lemma for_each_child_continues:
  assumes "subscript child ''id'' = Inr cid"
  shows "for_each_child (process_page_full room e self) path (JStr title) (child # rest) =
    (case for_each_child (process_page_full room e self) path (JStr title) rest of
       (r, cs) \<Rightarrow> (r, snd (process_page_full room e self cid (os_path_join path title)) @ cs))"
proof -
  obtain r cs where run: "process_page_full room e self cid (os_path_join path title) = (r, cs)"
    by (cases "process_page_full room e self cid (os_path_join path title)")
  with process_page_full_returns_normally [of room e self cid "os_path_join path title"]
  have "r = Inr ()" by (simp del: process_page_full.simps)
  with assms run show ?thesis
    by (simp add: ret_def os_path_join_json_def del: process_page_full.simps)
qed

text \<open>
  C4, amended. In a full sync, when the fetch of a page C raises, the visit of C makes
  that one page request and nothing else. When the upload operation raises, which it
  does exactly when the blob name cannot be printed, the visit ends after the calls of
  the fetch and of the upload. In both cases no child of C is listed or visited. A
  failure of storage is not such an error: whatever storage does, when the blob name
  can be printed the upload operation returns normally and the visit goes on to list
  and visit C's children. In every case the visit of C returns normally, so the loop
  of C's parent goes on: the run over C and its later siblings is the visit of C
  followed by the run over the later siblings.
\<close>

theorem fetch_failure_skips_subtree_only:
  "(fst (get_page_content e self cid) = Inl ex \<longrightarrow>
      process_page_full (Suc room) e self cid p =
        (Inr (), [HttpGet (fmt_opt (confluence_base_url self) @ ''/'' @ fmt e cid) page_params]))
   \<and> (get_page_content e self cid = (Inr (title, content, modified), cs1)
        \<and> \<not> list_all (stdout_encodes e) (blob_name_for e p title) \<longrightarrow>
      fst (upload_to_azure_blob e self content (blob_name_for e p title) [(''created_date'', modified)])
        = Inl UnicodeEncodeError
      \<and> process_page_full (Suc room) e self cid p =
        (Inr (), cs1 @ snd (upload_to_azure_blob e self content (blob_name_for e p title)
                             [(''created_date'', modified)])))
   \<and> (get_page_content e self cid = (Inr (title, content, modified), cs1)
        \<and> list_all (stdout_encodes e) (blob_name_for e p title) \<longrightarrow>
      fst (upload_to_azure_blob e self content (blob_name_for e p title) [(''created_date'', modified)])
        = Inr ()
      \<and> process_page_full (Suc room) e self cid p =
        (Inr (), cs1 @ snd (upload_to_azure_blob e self content (blob_name_for e p title)
                             [(''created_date'', modified)])
                     @ snd (visit_children (process_page_full room e self) e self cid p title)))
   \<and> (subscript child ''id'' = Inr cid \<longrightarrow>
      for_each_child (process_page_full room e self) path (JStr parent_title) (child # rest) =
        (case for_each_child (process_page_full room e self) path (JStr parent_title) rest of
           (r, cs) \<Rightarrow>
             (r, snd (process_page_full room e self cid (os_path_join path parent_title)) @ cs)))"
  using process_page_full_fetch_fails [of e self cid ex room p]
    process_page_full_upload_raises [of e self cid title content modified cs1 p room]
    process_page_full_upload_returns [of e self cid title content modified cs1 p room]
    for_each_child_continues [of child cid room e self path parent_title rest]
    upload_outcome [of e self content "blob_name_for e p title" "[(''created_date'', modified)]"]
  by (simp add: print_line_def del: process_page_full.simps for_each_child.simps)

text \<open>
  C4, as stated, promises that a page whose upload fails has its children skipped. It
  does not: with blob storage refusing every upload, the visit of Guide (2) still
  lists its children and visits Setup (4).
\<close>

theorem upload_failure_keeps_children:
  "upload_blob storage_down_env ''private'' ''Guide.html'' (JStr ''g'') = Some (External ''storage'')
   \<and> process_page_full (Suc (Suc 0)) storage_down_env doc_session (JStr ''2'') [] =
     (Inr (), [HttpGet ''api/2'' page_params, UploadBlob ''private'' ''Guide.html'' (JStr ''g''),
       HttpGet ''api/2/child/page'' [],
       HttpGet ''api/4'' page_params, UploadBlob ''private'' ''Guide/Setup.html'' (JStr ''s''),
       HttpGet ''api/4/child/page'' []])"
  by (simp add: run_defs site_defs)

text \<open>
  On the sample site: page 7 answers 500 and only its own request is made; the title
  of page 11 cannot be printed, so its upload raises and its child 4 is never
  requested; with storage refusing every upload, Top (8) is still followed by its
  children 7 and 3; and below Top the failed page 7 is followed by its sibling
  FAQ (3).
\<close>

theorem fetch_failure_skips_subtree_only_witness:
  "process_page_full (Suc 0) wiki_env doc_session (JStr ''7'') ''Top'' =
     (Inr (), [HttpGet ''api/7'' page_params])
   \<and> process_page_full (Suc (Suc 0)) wiki_env doc_session (JStr ''11'') [] =
     (Inr (), [HttpGet ''api/11'' page_params,
       UploadBlob ''private'' (CHR 0xFF # ''.html'') (JStr ''u''),
       SetBlobMetadata ''private'' (CHR 0xFF # ''.html'') [(''created_date'', JStr ''d11'')]])
   \<and> process_page_full (Suc (Suc 0)) storage_down_env doc_session (JStr ''8'') [] =
     (Inr (), [HttpGet ''api/8'' page_params, UploadBlob ''private'' ''Top.html'' (JStr ''t''),
       HttpGet ''api/8/child/page'' [],
       HttpGet ''api/7'' page_params,
       HttpGet ''api/3'' page_params, UploadBlob ''private'' ''Top/FAQ.html'' (JStr ''f''),
       HttpGet ''api/3/child/page'' []])
   \<and> for_each_child (process_page_full (Suc 0) wiki_env doc_session) [] (JStr ''Top'')
       [JObj [(''id'', JStr ''7'')], JObj [(''id'', JStr ''3'')]] =
     (Inr (), [HttpGet ''api/7'' page_params,
       HttpGet ''api/3'' page_params, UploadBlob ''private'' ''Top/FAQ.html'' (JStr ''f''),
       SetBlobMetadata ''private'' ''Top/FAQ.html'' [(''created_date'', JStr ''d3'')],
       HttpGet ''api/3/child/page'' []])"
  using fetch_failure_skips_subtree_only [where e = wiki_env and self = doc_session
      and cid = "JStr ''7''" and ex = "HTTPError 500" and room = 0 and p = "''Top''"
      and child = "JObj [(''id'', JStr ''7'')]" and path = "[]" and parent_title = "''Top''"
      and rest = "[JObj [(''id'', JStr ''3'')]]", THEN conjunct1]
    fetch_failure_skips_subtree_only [where e = wiki_env and self = doc_session
      and cid = "JStr ''11''" and room = "Suc 0" and p = "[]" and title = "JStr [CHR 0xFF]"
      and content = "JStr ''u''" and modified = "JStr ''d11''"
      and ?cs1.0 = "[HttpGet ''api/11'' page_params]", THEN conjunct2, THEN conjunct1]
    fetch_failure_skips_subtree_only [where e = storage_down_env and self = doc_session
      and cid = "JStr ''8''" and room = "Suc 0" and p = "[]" and title = "JStr ''Top''"
      and content = "JStr ''t''" and modified = "JStr ''d8''"
      and ?cs1.0 = "[HttpGet ''api/8'' page_params]", THEN conjunct2, THEN conjunct2, THEN conjunct1]
    fetch_failure_skips_subtree_only [where e = wiki_env and self = doc_session
      and cid = "JStr ''7''" and room = "Suc 0"
      and child = "JObj [(''id'', JStr ''7'')]" and path = "[]" and parent_title = "''Top''"
      and rest = "[JObj [(''id'', JStr ''3'')]]", THEN conjunct2, THEN conjunct2, THEN conjunct2]
  by (simp add: run_defs site_defs blob_name_for_def)

text \<open>
  C1. The full sync builds the path prefix with \<open>os.path.join\<close>, which drops
  everything before a component that starts with a slash. On the sample site Root (6)
  has the child \<open>/x\<close> (5), which has the child y (9): the full sync from Root uploads
  \<open>/x.html\<close> and \<open>/x/y.html\<close>, where the ancestor titles joined by a slash give
  \<open>Root//x.html\<close> and \<open>Root//x/y.html\<close>. The incremental sync, which joins the
  ancestor titles with a slash, uploads page 9 as \<open>Root//x/y.html\<close>.
\<close>

theorem full_sync_drops_ancestors_of_slash_title:
  "uploaded (snd (process_page_full (Suc (Suc (Suc 0))) wiki_env doc_session (JStr ''6'') [])) =
     [(''Root.html'', JStr ''r''), (''/x.html'', JStr ''x''), (''/x/y.html'', JStr ''y'')]
   \<and> spec_blob_path [''Root''] ''/x'' = ''Root//x.html''
   \<and> spec_blob_path [''Root'', ''/x''] ''y'' = ''Root//x/y.html''
   \<and> uploaded (snd (for_each_page_id wiki_env doc_session [JStr ''9''])) =
     [(''Root//x/y.html'', JStr ''y'')]"
  by (simp add: run_defs site_defs spec_blob_path_def)

section \<open>Incremental sync\<close>

text \<open>
  C3. The loop over the queried pages stands inside the single \<open>try\<close> of
  \<open>process_page_incremental\<close>. On the sample site the query returns page 7, whose
  fetch answers 500, and then page 3, which is readable: the run ends after the
  failed request for page 7, and page 3 is neither fetched nor uploaded.
\<close>

theorem incremental_stops_at_failing_page:
  "fst (get_page_content bad_page_env doc_session (JStr ''7'')) = Inl (HTTPError 500)
   \<and> fst (get_page_content bad_page_env doc_session (JStr ''3''))
       = Inr (JStr ''FAQ'', JStr ''f'', JStr ''d3'')
   \<and> process_page_incremental bad_page_env doc_session =
       (Inr (), [Cql ''space = DOC AND type = page AND lastmodified >= 2024-04-30 AND lastmodified < 2024-05-01''
                   ''ancestors'',
                 HttpGet ''api/7'' page_params])"
  by (simp add: process_page_incremental_def cql_query_def result_content_id_def run_defs site_defs)

text \<open>
  C5. The run asks the wiki service for the pages of the space modified from
  yesterday up to, not including, today. On the sample site the answer holds page 7
  and page 3; page 3 lies in the window and can be read, its ancestors too, yet the
  run uploads nothing: the failed fetch of page 7 has ended the loop.
\<close>

theorem incremental_misses_queried_page:
  "cql bad_page_env (cql_query bad_page_env doc_session) ''ancestors''
     = Inr (search_results [''7'', ''3''])
   \<and> cql_query bad_page_env doc_session =
       ''space = DOC AND type = page AND lastmodified >= 2024-04-30 AND lastmodified < 2024-05-01''
   \<and> fst (get_page_content bad_page_env doc_session (JStr ''3''))
       = Inr (JStr ''FAQ'', JStr ''f'', JStr ''d3'')
   \<and> fst (build_full_path bad_page_env doc_session (JStr ''3'')) = Inr ''Home''
   \<and> uploaded (snd (process_page_incremental bad_page_env doc_session)) = []"
  by (simp add: process_page_incremental_def cql_query_def result_content_id_def run_defs site_defs)

end
